theory Spec2Isabelle
  imports Main "HOL-Library.Sublist"
begin

section \<open>Python values and exceptions\<close>

text \<open>
  The two scripts (\<^verbatim>\<open>doc_sum.py\<close>, \<^verbatim>\<open>document_analyzer.py\<close>) move JSON values
  between HTTP calls. A decoded JSON value is a \<open>json\<close>; Python's \<^verbatim>\<open>None\<close> is \<open>JNull\<close>.
  A dict is an association list read with \<open>map_of\<close> (first binding wins). Numbers are
  integers; strings are byte strings.
\<close>

datatype json =
    JNull
  | JBool bool
  | JNum int
  | JStr string
  | JList "json list"
  | JDict "(string \<times> json) list"

text \<open>The exception classes the scripts raise, catch or let through.\<close>

datatype exn =
    RequestException
  | AttributeError
  | TypeError
  | ValueError
  | OSError

text \<open>Python truthiness: \<^verbatim>\<open>if x\<close>, \<^verbatim>\<open>not x\<close>, \<^verbatim>\<open>x or y\<close>.\<close>

fun truthy :: "json \<Rightarrow> bool" where
  "truthy JNull = False"
| "truthy (JBool b) = b"
| "truthy (JNum n) = (n \<noteq> 0)"
| "truthy (JStr s) = (s \<noteq> [])"
| "truthy (JList xs) = (xs \<noteq> [])"
| "truthy (JDict kvs) = (kvs \<noteq> [])"

text \<open>
  \<^verbatim>\<open>x.get(key, default)\<close>: only a dict has \<^verbatim>\<open>get\<close>; on any other value Python raises
  AttributeError. \<^verbatim>\<open>x.get(key)\<close> is \<open>py_get x key JNull\<close>.
\<close>

fun py_get :: "json \<Rightarrow> string \<Rightarrow> json \<Rightarrow> exn + json" where
  "py_get (JDict kvs) k dflt = Inr (case map_of kvs k of Some v \<Rightarrow> v | None \<Rightarrow> dflt)"
| "py_get _ k dflt = Inl AttributeError"

text \<open>Sequencing of steps that may raise: the first exception ends the block.\<close>

definition exn_bind :: "exn + 'a \<Rightarrow> ('a \<Rightarrow> exn + 'b) \<Rightarrow> exn + 'b" where
  "exn_bind x f = (case x of Inl e \<Rightarrow> Inl e | Inr a \<Rightarrow> f a)"

text \<open>\<^verbatim>\<open>a or b\<close>: \<open>b\<close> is evaluated only when \<open>a\<close> is falsy; an exception in \<open>a\<close> wins.\<close>

definition or_else :: "exn + json \<Rightarrow> exn + json \<Rightarrow> exn + json" where
  "or_else a b = (case a of Inl e \<Rightarrow> Inl e | Inr v \<Rightarrow> if truthy v then Inr v else b)"

section \<open>Response-text extraction (document\_analyzer.py, lines 365--407)\<close>

text \<open>
  \<^verbatim>\<open>json.dumps\<close> and \<^verbatim>\<open>str\<close> are Python's own; they are parameters \<open>dumps\<close> (which may
  raise) and \<open>py_str\<close>. Each \<^verbatim>\<open>try\<close> block is a function whose value is \<open>Inl e\<close> when
  the block raises, \<open>Inr (Some s)\<close> when it returns \<open>s\<close>, and \<open>Inr None\<close> when control
  leaves the block at its end.
\<close>

text \<open>\<^verbatim>\<open>return v if isinstance(v, str) else json.dumps(v)\<close>\<close>

definition text_or_dumps :: "(json \<Rightarrow> exn + string) \<Rightarrow> json \<Rightarrow> exn + string option" where
  "text_or_dumps dumps v =
     (case v of
        JStr s \<Rightarrow> Inr (Some s)
      | _ \<Rightarrow> exn_bind (dumps v) (\<lambda>s. Inr (Some s)))"

text \<open>Lines 378--382: the nested \<^verbatim>\<open>message\<close>/\<^verbatim>\<open>response\<close> object of the first choice.\<close>

definition probe_message :: "(json \<Rightarrow> exn + string) \<Rightarrow> json \<Rightarrow> exn + string option" where
  "probe_message dumps first =
     exn_bind (or_else (py_get first ''message'' JNull)
                (or_else (py_get first ''response'' JNull) (Inr (JDict [])))) (\<lambda>msg.
       case msg of
         JDict kvs \<Rightarrow>
           exn_bind (or_else (py_get msg ''content'' JNull)
                      (or_else (py_get msg ''text'' JNull) (py_get msg ''body'' JNull))) (\<lambda>content.
             if truthy content then text_or_dumps dumps content else Inr None)
       | _ \<Rightarrow> Inr None)"

text \<open>Lines 384--386: the direct \<^verbatim>\<open>text\<close>/\<^verbatim>\<open>content\<close> field of the first choice.\<close>

definition probe_direct :: "(json \<Rightarrow> exn + string) \<Rightarrow> json \<Rightarrow> exn + string option" where
  "probe_direct dumps first =
     exn_bind (or_else (py_get first ''text'' JNull) (py_get first ''content'' JNull)) (\<lambda>txt.
       if truthy txt then text_or_dumps dumps txt else Inr None)"

text \<open>Lines 374--386: the body of the first \<^verbatim>\<open>try\<close>.\<close>

definition probe_choices :: "(json \<Rightarrow> exn + string) \<Rightarrow> json \<Rightarrow> exn + string option" where
  "probe_choices dumps resp =
     exn_bind (py_get resp ''data'' (JDict [])) (\<lambda>d.
     exn_bind (py_get d ''choices'' JNull) (\<lambda>choices.
       case choices of
         JList (first # rest) \<Rightarrow>
           exn_bind (probe_message dumps first) (\<lambda>r.
             case r of
               Some s \<Rightarrow> Inr (Some s)
             | None \<Rightarrow> probe_direct dumps first)
       | _ \<Rightarrow> Inr None))"

text \<open>
  Lines 397--399: \<^verbatim>\<open>for k in ("output", "text", "content")\<close>, returning the first
  value that is present and a string.
\<close>

fun probe_keys :: "(string \<times> json) list \<Rightarrow> string list \<Rightarrow> string option" where
  "probe_keys kvs [] = None"
| "probe_keys kvs (k # ks) =
     (case map_of kvs k of
        Some (JStr s) \<Rightarrow> Some s
      | _ \<Rightarrow> probe_keys kvs ks)"

text \<open>Lines 392--399: the body of the second \<^verbatim>\<open>try\<close>.\<close>

definition probe_data :: "json \<Rightarrow> exn + string option" where
  "probe_data resp =
     exn_bind (py_get resp ''data'' JNull) (\<lambda>data_field.
       case data_field of
         JStr s \<Rightarrow> Inr (Some s)
       | JDict kvs \<Rightarrow> Inr (probe_keys kvs [''output'', ''text'', ''content''])
       | _ \<Rightarrow> Inr None)"

text \<open>Lines 404--407: the last resort.\<close>

definition stringify :: "(json \<Rightarrow> exn + string) \<Rightarrow> (json \<Rightarrow> string) \<Rightarrow> json \<Rightarrow> exn + string" where
  "stringify dumps py_str resp =
     (case dumps resp of Inr s \<Rightarrow> Inr s | Inl e \<Rightarrow> Inr (py_str resp))"

text \<open>
  The whole function. \<^verbatim>\<open>except Exception: pass\<close> sends a raising block to the next
  one, exactly as a block that ends without returning.
\<close>

definition extract_text_from_amplify_response ::
  "(json \<Rightarrow> exn + string) \<Rightarrow> (json \<Rightarrow> string) \<Rightarrow> json \<Rightarrow> exn + string" where
  "extract_text_from_amplify_response dumps py_str resp =
     (if \<not> truthy resp then Inr []
      else case probe_choices dumps resp of
             Inr (Some s) \<Rightarrow> Inr s
           | _ \<Rightarrow> (case probe_data resp of
                     Inr (Some s) \<Rightarrow> Inr s
                   | _ \<Rightarrow> stringify dumps py_str resp))"

text \<open>Stand-ins for \<^verbatim>\<open>json.dumps\<close> and \<^verbatim>\<open>str\<close>, used only in the examples.\<close>

definition sample_dumps :: "json \<Rightarrow> exn + string" where
  "sample_dumps j = Inr ''{}''"

definition sample_str :: "json \<Rightarrow> string" where
  "sample_str j = ''{}''"

text \<open>
  A top-level \<^verbatim>\<open>data\<close> entry in which neither \<^verbatim>\<open>try\<close> block can find a text: absent, or
  neither a string nor a dict, or a dict whose \<^verbatim>\<open>choices\<close> is not a non-empty list and
  that binds none of \<^verbatim>\<open>output\<close>, \<^verbatim>\<open>text\<close>, \<^verbatim>\<open>content\<close> to a string.
\<close>

fun no_probe_data :: "json option \<Rightarrow> bool" where
  "no_probe_data None = True"
| "no_probe_data (Some (JStr s)) = False"
| "no_probe_data (Some (JDict kvs)) =
     ((case map_of kvs ''choices'' of Some (JList (first # rest)) \<Rightarrow> False | _ \<Rightarrow> True)
      \<and> probe_keys kvs [''output'', ''text'', ''content''] = None)"
| "no_probe_data (Some v) = True"

section \<open>Directory scanner (document\_analyzer.py, lines 335--362)\<close>












subsection \<open>The files of a tree, for stating what the scanner finds\<close>










subsection \<open>Path strings, for the proof that distinct files have distinct paths\<close>



section \<open>Theorems\<close>

subsection \<open>Response-text extraction\<close>

lemma text_or_dumps_nonempty:
  assumes "\<forall>j s. dumps j = Inr s \<longrightarrow> s \<noteq> []" "truthy v" "text_or_dumps dumps v = Inr (Some s)"
  shows "s \<noteq> []"
  using assms by (cases v) (auto simp: text_or_dumps_def exn_bind_def split: sum.splits)

lemma probe_message_nonempty:
  assumes "\<forall>j s. dumps j = Inr s \<longrightarrow> s \<noteq> []" "probe_message dumps first = Inr (Some s)"
  shows "s \<noteq> []"
  using assms
  by (auto simp: probe_message_def exn_bind_def split: sum.splits json.splits if_splits
      dest: text_or_dumps_nonempty)

lemma probe_direct_nonempty:
  assumes "\<forall>j s. dumps j = Inr s \<longrightarrow> s \<noteq> []" "probe_direct dumps first = Inr (Some s)"
  shows "s \<noteq> []"
  using assms
  by (auto simp: probe_direct_def exn_bind_def split: sum.splits json.splits if_splits
      dest: text_or_dumps_nonempty)

lemma probe_choices_nonempty:
  assumes "\<forall>j s. dumps j = Inr s \<longrightarrow> s \<noteq> []" "probe_choices dumps resp = Inr (Some s)"
  shows "s \<noteq> []"
  using assms
  by (auto simp: probe_choices_def exn_bind_def
      split: sum.splits json.splits list.splits option.splits
      dest: probe_message_nonempty probe_direct_nonempty)

lemma stringify_total: "\<exists>s. stringify dumps py_str resp = Inr s"
  by (auto simp: stringify_def split: sum.splits)

lemma extract_total: "\<exists>s. extract_text_from_amplify_response dumps py_str resp = Inr s"
  using stringify_total[of dumps py_str resp]
  by (auto simp: extract_text_from_amplify_response_def split: sum.splits option.splits)

lemma extract_data_string:
  assumes "map_of r ''data'' = Some (JStr s)"
  shows "extract_text_from_amplify_response dumps py_str (JDict r) = Inr s"
proof -
  from assms have r: "r \<noteq> []" by auto
  have "probe_choices dumps (JDict r) = Inl AttributeError"
    using assms by (simp add: probe_choices_def exn_bind_def)
  moreover have "probe_data (JDict r) = Inr (Some s)"
    using assms by (simp add: probe_data_def exn_bind_def)
  ultimately show ?thesis using r by (simp add: extract_text_from_amplify_response_def)
qed

lemma extract_nested:
  assumes "map_of r ''data'' = Some (JDict d)"
    "map_of d ''choices'' = Some (JList (JDict f # rest))"
    "map_of f ''message'' = Some (JDict m)" "map_of m ''content'' = Some c" "truthy c"
  shows "extract_text_from_amplify_response dumps py_str (JDict r) =
     (case c of
        JStr s \<Rightarrow> Inr s
      | _ \<Rightarrow> (case dumps c of
                Inr s \<Rightarrow> Inr s
              | Inl e \<Rightarrow> (case probe_keys d [''output'', ''text'', ''content''] of
                          Some s \<Rightarrow> Inr s
                        | None \<Rightarrow> stringify dumps py_str (JDict r))))"
proof -
  from assms have r: "r \<noteq> []" and m: "m \<noteq> []" by auto
  have pm: "probe_message dumps (JDict f) = text_or_dumps dumps c"
    using assms m by (simp add: probe_message_def or_else_def exn_bind_def)
  have pc: "probe_choices dumps (JDict r) =
      exn_bind (text_or_dumps dumps c) (\<lambda>r. case r of Some s \<Rightarrow> Inr (Some s)
                                             | None \<Rightarrow> probe_direct dumps (JDict f))"
    using assms(1,2) pm by (simp add: probe_choices_def exn_bind_def)
  have pd: "probe_data (JDict r) = Inr (probe_keys d [''output'', ''text'', ''content''])"
    using assms(1) by (simp add: probe_data_def exn_bind_def)
  show ?thesis
    unfolding extract_text_from_amplify_response_def pc pd using r
    by (cases c; cases "dumps c")
      (simp_all add: text_or_dumps_def exn_bind_def split: option.splits)
qed

lemma extract_direct_text:
  assumes "map_of r ''data'' = Some (JDict d)"
    "map_of d ''choices'' = Some (JList (JDict f # rest))"
    "map_of f ''message'' = None" "map_of f ''response'' = None"
    "map_of f ''text'' = Some t" "truthy t"
  shows "extract_text_from_amplify_response dumps py_str (JDict r) =
     (case t of
        JStr s \<Rightarrow> Inr s
      | _ \<Rightarrow> (case dumps t of
                Inr s \<Rightarrow> Inr s
              | Inl e \<Rightarrow> (case probe_keys d [''output'', ''text'', ''content''] of
                          Some s \<Rightarrow> Inr s
                        | None \<Rightarrow> stringify dumps py_str (JDict r))))"
proof -
  from assms have r: "r \<noteq> []" by auto
  have pm: "probe_message dumps (JDict f) = Inr None"
    using assms by (simp add: probe_message_def or_else_def exn_bind_def)
  have pdir: "probe_direct dumps (JDict f) = text_or_dumps dumps t"
    using assms by (simp add: probe_direct_def or_else_def exn_bind_def)
  have pc: "probe_choices dumps (JDict r) = text_or_dumps dumps t"
    using assms(1,2) pm pdir by (simp add: probe_choices_def exn_bind_def)
  have pd: "probe_data (JDict r) = Inr (probe_keys d [''output'', ''text'', ''content''])"
    using assms(1) by (simp add: probe_data_def exn_bind_def)
  show ?thesis
    unfolding extract_text_from_amplify_response_def pc pd using r
    by (cases t; cases "dumps t")
      (simp_all add: text_or_dumps_def exn_bind_def split: option.splits)
qed

lemma extract_data_keys:
  assumes "map_of r ''data'' = Some (JDict d)"
    "\<forall>s. probe_choices dumps (JDict r) \<noteq> Inr (Some s)"
    "probe_keys d [''output'', ''text'', ''content''] = Some s"
  shows "extract_text_from_amplify_response dumps py_str (JDict r) = Inr s"
proof -
  from assms have r: "r \<noteq> []" by auto
  have pd: "probe_data (JDict r) = Inr (Some s)"
    using assms(1,3) by (simp add: probe_data_def exn_bind_def)
  show ?thesis
    using r assms(2) pd
    by (auto simp: extract_text_from_amplify_response_def split: sum.splits option.splits)
qed

lemma extract_no_probe:
  assumes "truthy resp" "\<forall>s. probe_choices dumps resp \<noteq> Inr (Some s)"
    "\<forall>s. probe_data resp \<noteq> Inr (Some s)"
  shows "extract_text_from_amplify_response dumps py_str resp = stringify dumps py_str resp"
  using assms
  by (auto simp: extract_text_from_amplify_response_def split: sum.splits option.splits)

lemma extract_non_dict:
  assumes "truthy resp" "\<forall>kvs. resp \<noteq> JDict kvs"
  shows "extract_text_from_amplify_response dumps py_str resp = stringify dumps py_str resp"
  using assms
  by (cases resp)
    (simp_all add: extract_text_from_amplify_response_def probe_choices_def probe_data_def
      exn_bind_def)

lemma extract_no_probe_data:
  assumes "r \<noteq> []" "no_probe_data (map_of r ''data'')"
  shows "extract_text_from_amplify_response dumps py_str (JDict r) = stringify dumps py_str (JDict r)"
proof -
  have "probe_choices dumps (JDict r) \<noteq> Inr (Some s)" for s
    using assms(2)
    by (cases "map_of r ''data''"; cases "the (map_of r ''data'')")
      (auto simp: probe_choices_def exn_bind_def simp del: probe_keys.simps
         split: option.splits json.splits list.splits)
  moreover have "probe_data (JDict r) = Inr None"
    using assms(2)
    by (cases "map_of r ''data''"; cases "the (map_of r ''data'')")
      (auto simp: probe_data_def exn_bind_def simp del: probe_keys.simps)
  ultimately show ?thesis
    using assms(1) by (intro extract_no_probe) auto
qed

lemma extract_empty_iff:
  assumes d: "\<forall>j s. dumps j = Inr s \<longrightarrow> s \<noteq> []" and p: "\<forall>j. truthy j \<longrightarrow> py_str j \<noteq> []"
  shows "extract_text_from_amplify_response dumps py_str resp = Inr [] \<longleftrightarrow>
       (\<not> truthy resp \<or> py_get resp ''data'' JNull = Inr (JStr [])
        \<or> (\<exists>kvs. py_get resp ''data'' JNull = Inr (JDict kvs)
              \<and> (\<forall>s. probe_choices dumps resp \<noteq> Inr (Some s))
              \<and> probe_keys kvs [''output'', ''text'', ''content''] = Some []))"
    (is "?L \<longleftrightarrow> ?R")
proof
  assume e: ?L
  show ?R
  proof (cases "truthy resp")
    case False then show ?thesis by simp
  next
    case True
    have pc: "probe_choices dumps resp \<noteq> Inr (Some [])"
      using probe_choices_nonempty[OF d] by blast
    have st: "stringify dumps py_str resp \<noteq> Inr []"
      using d p True by (auto simp: stringify_def split: sum.splits)
    from e True pc st have nc: "\<forall>s. probe_choices dumps resp \<noteq> Inr (Some s)"
      by (auto simp: extract_text_from_amplify_response_def split: sum.splits option.splits)
    from e True pc st have pd: "probe_data resp = Inr (Some [])"
      by (auto simp: extract_text_from_amplify_response_def split: sum.splits option.splits)
    then consider "py_get resp ''data'' JNull = Inr (JStr [])"
      | kvs where "py_get resp ''data'' JNull = Inr (JDict kvs)"
          "probe_keys kvs [''output'', ''text'', ''content''] = Some []"
      by (auto simp: probe_data_def exn_bind_def simp del: probe_keys.simps
          split: sum.splits json.splits)
    then show ?thesis
    proof cases
      case 1 then show ?thesis by simp
    next
      case 2 with nc show ?thesis by blast
    qed
  qed
next
  assume ?R
  then consider "\<not> truthy resp" | "py_get resp ''data'' JNull = Inr (JStr [])"
    | kvs where "py_get resp ''data'' JNull = Inr (JDict kvs)"
        "\<forall>s. probe_choices dumps resp \<noteq> Inr (Some s)"
        "probe_keys kvs [''output'', ''text'', ''content''] = Some []"
    by blast
  then show ?L
  proof cases
    case 1 then show ?thesis by (simp add: extract_text_from_amplify_response_def)
  next
    case 2
    then obtain r where r: "resp = JDict r" "map_of r ''data'' = Some (JStr [])"
      by (cases resp) (auto split: option.splits)
    then show ?thesis using extract_data_string[of r "[]" dumps py_str] by simp
  next
    case 3
    then obtain r where r: "resp = JDict r" "map_of r ''data'' = Some (JDict kvs)"
      by (cases resp) (auto split: option.splits)
    with 3 show ?thesis using extract_data_keys[of r kvs dumps "[]" py_str] by simp
  qed
qed

text \<open>
  Claim C4, as stated, fails on four counts, each for every \<^verbatim>\<open>json.dumps\<close> and \<^verbatim>\<open>str\<close>.
  The responses \<^verbatim>\<open>{"data": ""}\<close> and \<^verbatim>\<open>{"data": {"output": ""}}\<close> are non-empty dicts for
  which the function returns the empty string (lines 394 and 399 return a string they find
  without testing it). The responses \<^verbatim>\<open>{"data": {"output": "mkdir docs"}}\<close> and
  \<^verbatim>\<open>{"data": {"choices": [{"text": "mkdir docs"}]}}\<close> have neither the nested
  \<^verbatim>\<open>message\<close>/\<^verbatim>\<open>content\<close> shape nor a string \<^verbatim>\<open>data\<close>, and the function returns
  \<^verbatim>\<open>mkdir docs\<close> for them, not a serialised form of the response. The response
  \<^verbatim>\<open>{"data": {"choices": [{"message": {"content": ""}}]}}\<close> has the nested shape, and the
  function returns the serialised whole response for it, not its nested content
  (the empty string).
\<close>

theorem extract_text_claim_fails:
  "\<forall>(dumps :: json \<Rightarrow> exn + string) (py_str :: json \<Rightarrow> string).
     truthy (JDict [(''data'', JStr [])])
   \<and> extract_text_from_amplify_response dumps py_str (JDict [(''data'', JStr [])]) = Inr []
   \<and> truthy (JDict [(''data'', JDict [(''output'', JStr [])])])
   \<and> extract_text_from_amplify_response dumps py_str
         (JDict [(''data'', JDict [(''output'', JStr [])])]) = Inr []
   \<and> extract_text_from_amplify_response dumps py_str
         (JDict [(''data'', JDict [(''output'', JStr ''mkdir docs'')])]) = Inr ''mkdir docs''
   \<and> extract_text_from_amplify_response dumps py_str
         (JDict [(''data'', JDict [(''choices'', JList [JDict [(''text'', JStr ''mkdir docs'')]])])])
       = Inr ''mkdir docs''
   \<and> extract_text_from_amplify_response dumps py_str
         (JDict [(''data'', JDict [(''choices'',
            JList [JDict [(''message'', JDict [(''content'', JStr [])])]])])])
       = (case dumps (JDict [(''data'', JDict [(''choices'',
                       JList [JDict [(''message'', JDict [(''content'', JStr [])])]])])]) of
            Inr s \<Rightarrow> Inr s
          | Inl e \<Rightarrow> Inr (py_str (JDict [(''data'', JDict [(''choices'',
                       JList [JDict [(''message'', JDict [(''content'', JStr [])])]])])])))"
  by (simp add: extract_text_from_amplify_response_def probe_choices_def probe_message_def
      probe_direct_def probe_data_def text_or_dumps_def stringify_def or_else_def exn_bind_def
      split: sum.splits)

text \<open>
  Claim C4, amended. Write \<open>E\<close> for the function applied to a response. For every
  \<^verbatim>\<open>json.dumps\<close> that never yields the empty string and every \<^verbatim>\<open>str\<close> that yields a
  non-empty string on a non-empty value:

  \<^enum> \<open>E\<close> never raises.
  \<^enum> For a response shaped \<^verbatim>\<open>data/choices[0]/message/content\<close> whose content is truthy,
    \<open>E\<close> is the content when it is a string and \<^verbatim>\<open>json.dumps(content)\<close> otherwise (when
    that raises, the first string under \<^verbatim>\<open>output\<close>, \<^verbatim>\<open>text\<close>, \<^verbatim>\<open>content\<close> of \<^verbatim>\<open>data\<close>,
    else the serialised response).
  \<^enum> The same holds for a truthy \<^verbatim>\<open>data/choices[0]/text\<close> when the first choice has
    neither \<^verbatim>\<open>message\<close> nor \<^verbatim>\<open>response\<close>.
  \<^enum> A top-level string \<^verbatim>\<open>data\<close> is returned verbatim.
  \<^enum> When \<^verbatim>\<open>data\<close> is a dict and the first \<^verbatim>\<open>try\<close> block returns nothing, the first
    string under \<^verbatim>\<open>output\<close>, \<^verbatim>\<open>text\<close>, \<^verbatim>\<open>content\<close> is returned verbatim.
  \<^enum> Whenever the response is non-empty and neither \<^verbatim>\<open>try\<close> block returns a text, \<open>E\<close>
    is the serialised whole response: \<^verbatim>\<open>json.dumps(resp)\<close>, or \<^verbatim>\<open>str(resp)\<close> when that
    raises.
  \<^enum> That is so in particular for every non-empty response that is not a dict,
  \<^enum> and for every non-empty dict whose \<^verbatim>\<open>data\<close> is absent, or neither a string nor a
    dict, or a dict whose \<^verbatim>\<open>choices\<close> is not a non-empty list and that has no string
    under \<^verbatim>\<open>output\<close>, \<^verbatim>\<open>text\<close>, \<^verbatim>\<open>content\<close>.
  \<^enum> \<open>E\<close> is the empty string exactly when the response is empty, or \<^verbatim>\<open>data\<close> is the
    empty string, or \<^verbatim>\<open>data\<close> is a dict, the first \<^verbatim>\<open>try\<close> block returns nothing, and
    the first string under \<^verbatim>\<open>output\<close>, \<^verbatim>\<open>text\<close>, \<^verbatim>\<open>content\<close> is empty.
\<close>

theorem extract_text_shapes:
  assumes "\<forall>j s. dumps j = Inr s \<longrightarrow> s \<noteq> []" and "\<forall>j. truthy j \<longrightarrow> py_str j \<noteq> []"
  shows
    "(\<exists>s. extract_text_from_amplify_response dumps py_str resp0 = Inr s)
   \<and> (map_of r1 ''data'' = Some (JDict d1)
        \<and> map_of d1 ''choices'' = Some (JList (JDict f1 # rest1))
        \<and> map_of f1 ''message'' = Some (JDict m1) \<and> map_of m1 ''content'' = Some c1
        \<and> truthy c1
      \<longrightarrow> extract_text_from_amplify_response dumps py_str (JDict r1) =
          (case c1 of
             JStr s \<Rightarrow> Inr s
           | _ \<Rightarrow> (case dumps c1 of
                     Inr s \<Rightarrow> Inr s
                   | Inl e \<Rightarrow> (case probe_keys d1 [''output'', ''text'', ''content''] of
                               Some s \<Rightarrow> Inr s
                             | None \<Rightarrow> (case dumps (JDict r1) of
                                         Inr s \<Rightarrow> Inr s
                                       | Inl e \<Rightarrow> Inr (py_str (JDict r1)))))))
   \<and> (map_of r2 ''data'' = Some (JDict d2)
        \<and> map_of d2 ''choices'' = Some (JList (JDict f2 # rest2))
        \<and> map_of f2 ''message'' = None \<and> map_of f2 ''response'' = None
        \<and> map_of f2 ''text'' = Some t2 \<and> truthy t2
      \<longrightarrow> extract_text_from_amplify_response dumps py_str (JDict r2) =
          (case t2 of
             JStr s \<Rightarrow> Inr s
           | _ \<Rightarrow> (case dumps t2 of
                     Inr s \<Rightarrow> Inr s
                   | Inl e \<Rightarrow> (case probe_keys d2 [''output'', ''text'', ''content''] of
                               Some s \<Rightarrow> Inr s
                             | None \<Rightarrow> (case dumps (JDict r2) of
                                         Inr s \<Rightarrow> Inr s
                                       | Inl e \<Rightarrow> Inr (py_str (JDict r2)))))))
   \<and> (map_of r3 ''data'' = Some (JStr s3)
      \<longrightarrow> extract_text_from_amplify_response dumps py_str (JDict r3) = Inr s3)
   \<and> (map_of r4 ''data'' = Some (JDict d4)
        \<and> (\<forall>s. probe_choices dumps (JDict r4) \<noteq> Inr (Some s))
        \<and> probe_keys d4 [''output'', ''text'', ''content''] = Some s4
      \<longrightarrow> extract_text_from_amplify_response dumps py_str (JDict r4) = Inr s4)
   \<and> (truthy resp5 \<and> (\<forall>s. probe_choices dumps resp5 \<noteq> Inr (Some s))
        \<and> (\<forall>s. probe_data resp5 \<noteq> Inr (Some s))
      \<longrightarrow> extract_text_from_amplify_response dumps py_str resp5
          = (case dumps resp5 of Inr s \<Rightarrow> Inr s | Inl e \<Rightarrow> Inr (py_str resp5)))
   \<and> (truthy resp6 \<and> (\<forall>kvs. resp6 \<noteq> JDict kvs)
      \<longrightarrow> extract_text_from_amplify_response dumps py_str resp6
          = (case dumps resp6 of Inr s \<Rightarrow> Inr s | Inl e \<Rightarrow> Inr (py_str resp6)))
   \<and> (r7 \<noteq> [] \<and> no_probe_data (map_of r7 ''data'')
      \<longrightarrow> extract_text_from_amplify_response dumps py_str (JDict r7)
          = (case dumps (JDict r7) of Inr s \<Rightarrow> Inr s | Inl e \<Rightarrow> Inr (py_str (JDict r7))))
   \<and> (extract_text_from_amplify_response dumps py_str resp8 = Inr [] \<longleftrightarrow>
        (\<not> truthy resp8 \<or> py_get resp8 ''data'' JNull = Inr (JStr [])
         \<or> (\<exists>kvs. py_get resp8 ''data'' JNull = Inr (JDict kvs)
               \<and> (\<forall>s. probe_choices dumps resp8 \<noteq> Inr (Some s))
               \<and> probe_keys kvs [''output'', ''text'', ''content''] = Some [])))"
proof -
  have t1: "\<exists>s. extract_text_from_amplify_response dumps py_str resp0 = Inr s"
    by (rule extract_total)
  have t2: "extract_text_from_amplify_response dumps py_str (JDict r1) =
          (case c1 of
             JStr s \<Rightarrow> Inr s
           | _ \<Rightarrow> (case dumps c1 of
                     Inr s \<Rightarrow> Inr s
                   | Inl e \<Rightarrow> (case probe_keys d1 [''output'', ''text'', ''content''] of
                               Some s \<Rightarrow> Inr s
                             | None \<Rightarrow> (case dumps (JDict r1) of
                                         Inr s \<Rightarrow> Inr s
                                       | Inl e \<Rightarrow> Inr (py_str (JDict r1))))))"
    if "map_of r1 ''data'' = Some (JDict d1)"
      "map_of d1 ''choices'' = Some (JList (JDict f1 # rest1))"
      "map_of f1 ''message'' = Some (JDict m1)" "map_of m1 ''content'' = Some c1" "truthy c1"
    using extract_nested[OF that, of dumps py_str] unfolding stringify_def .
  have t3: "extract_text_from_amplify_response dumps py_str (JDict r2) =
          (case t2 of
             JStr s \<Rightarrow> Inr s
           | _ \<Rightarrow> (case dumps t2 of
                     Inr s \<Rightarrow> Inr s
                   | Inl e \<Rightarrow> (case probe_keys d2 [''output'', ''text'', ''content''] of
                               Some s \<Rightarrow> Inr s
                             | None \<Rightarrow> (case dumps (JDict r2) of
                                         Inr s \<Rightarrow> Inr s
                                       | Inl e \<Rightarrow> Inr (py_str (JDict r2))))))"
    if "map_of r2 ''data'' = Some (JDict d2)"
      "map_of d2 ''choices'' = Some (JList (JDict f2 # rest2))"
      "map_of f2 ''message'' = None" "map_of f2 ''response'' = None"
      "map_of f2 ''text'' = Some t2" "truthy t2"
    using extract_direct_text[OF that, of dumps py_str] unfolding stringify_def .
  have t4: "extract_text_from_amplify_response dumps py_str (JDict r3) = Inr s3"
    if "map_of r3 ''data'' = Some (JStr s3)"
    using that by (rule extract_data_string)
  have t5: "extract_text_from_amplify_response dumps py_str (JDict r4) = Inr s4"
    if "map_of r4 ''data'' = Some (JDict d4)"
      "\<forall>s. probe_choices dumps (JDict r4) \<noteq> Inr (Some s)"
      "probe_keys d4 [''output'', ''text'', ''content''] = Some s4"
    using that by (rule extract_data_keys)
  have t6: "extract_text_from_amplify_response dumps py_str resp5
          = (case dumps resp5 of Inr s \<Rightarrow> Inr s | Inl e \<Rightarrow> Inr (py_str resp5))"
    if "truthy resp5" "\<forall>s. probe_choices dumps resp5 \<noteq> Inr (Some s)"
      "\<forall>s. probe_data resp5 \<noteq> Inr (Some s)"
    using extract_no_probe[OF that, of py_str] by (simp add: stringify_def)
  have t7: "extract_text_from_amplify_response dumps py_str resp6
          = (case dumps resp6 of Inr s \<Rightarrow> Inr s | Inl e \<Rightarrow> Inr (py_str resp6))"
    if "truthy resp6" "\<forall>kvs. resp6 \<noteq> JDict kvs"
    using extract_non_dict[OF that, of dumps py_str] by (simp add: stringify_def)
  have t8: "extract_text_from_amplify_response dumps py_str (JDict r7)
          = (case dumps (JDict r7) of Inr s \<Rightarrow> Inr s | Inl e \<Rightarrow> Inr (py_str (JDict r7)))"
    if "r7 \<noteq> []" "no_probe_data (map_of r7 ''data'')"
    using extract_no_probe_data[OF that, of dumps py_str] by (simp add: stringify_def)
  note t9 = extract_empty_iff[OF assms, of resp8]
  from t1 t2 t3 t4 t5 t6 t7 t8 t9 show ?thesis by blast
qed

theorem extract_text_shapes_witness:
  "extract_text_from_amplify_response sample_dumps sample_str
     (JDict [(''data'', JDict [(''choices'',
        JList [JDict [(''message'', JDict [(''content'', JStr ''mkdir docs'')])]])])]) = Inr ''mkdir docs''
   \<and> extract_text_from_amplify_response sample_dumps sample_str
     (JDict [(''data'', JDict [(''choices'', JList [JDict [(''text'', JStr ''mkdir docs'')]])])]) = Inr ''mkdir docs''
   \<and> extract_text_from_amplify_response sample_dumps sample_str
     (JDict [(''data'', JStr ''move a.py src'')]) = Inr ''move a.py src''
   \<and> extract_text_from_amplify_response sample_dumps sample_str
     (JDict [(''data'', JDict [(''output'', JStr ''mkdir docs''), (''content'', JStr [])])]) = Inr ''mkdir docs''
   \<and> extract_text_from_amplify_response sample_dumps sample_str
     (JDict [(''data'', JDict [(''choices'',
        JList [JDict [(''message'', JDict [(''content'', JStr [])])]])])])
     = sample_dumps (JDict [(''data'', JDict [(''choices'',
        JList [JDict [(''message'', JDict [(''content'', JStr [])])]])])])
   \<and> extract_text_from_amplify_response sample_dumps sample_str (JList [JNum 1]) = sample_dumps (JList [JNum 1])
   \<and> extract_text_from_amplify_response sample_dumps sample_str
     (JDict [(''data'', JDict [(''choices'', JList [])])]) = sample_dumps (JDict [(''data'', JDict [(''choices'', JList [])])])
   \<and> extract_text_from_amplify_response sample_dumps sample_str JNull = Inr []"
proof -
  have h1: "\<forall>j s. sample_dumps j = Inr s \<longrightarrow> s \<noteq> []" by (simp add: sample_dumps_def)
  have h2: "\<forall>j. truthy j \<longrightarrow> sample_str j \<noteq> []" by (simp add: sample_str_def)
  note t = extract_text_shapes[OF h1 h2, where
      ?resp0.0 = JNull
      and ?r1.0 = "[(''data'', JDict [(''choices'',
        JList [JDict [(''message'', JDict [(''content'', JStr ''mkdir docs'')])]])])]"
      and ?d1.0 = "[(''choices'', JList [JDict [(''message'', JDict [(''content'', JStr ''mkdir docs'')])]])]"
      and ?f1.0 = "[(''message'', JDict [(''content'', JStr ''mkdir docs'')])]"
      and ?rest1.0 = "[]"
      and ?m1.0 = "[(''content'', JStr ''mkdir docs'')]"
      and ?c1.0 = "JStr ''mkdir docs''"
      and ?r2.0 = "[(''data'', JDict [(''choices'', JList [JDict [(''text'', JStr ''mkdir docs'')]])])]"
      and ?d2.0 = "[(''choices'', JList [JDict [(''text'', JStr ''mkdir docs'')]])]"
      and ?f2.0 = "[(''text'', JStr ''mkdir docs'')]"
      and ?rest2.0 = "[]"
      and ?t2.0 = "JStr ''mkdir docs''"
      and ?r3.0 = "[(''data'', JStr ''move a.py src'')]"
      and ?s3.0 = "''move a.py src''"
      and ?r4.0 = "[(''data'', JDict [(''output'', JStr ''mkdir docs''), (''content'', JStr [])])]"
      and ?d4.0 = "[(''output'', JStr ''mkdir docs''), (''content'', JStr [])]"
      and ?s4.0 = "''mkdir docs''"
      and ?resp5.0 = "(JDict [(''data'', JDict [(''choices'',
        JList [JDict [(''message'', JDict [(''content'', JStr [])])]])])])"
      and ?resp6.0 = "(JList [JNum 1])"
      and ?r7.0 = "[(''data'', JDict [(''choices'', JList [])])]"
      and ?resp8.0 = JNull]
  have c1: "extract_text_from_amplify_response sample_dumps sample_str
     (JDict [(''data'', JDict [(''choices'',
        JList [JDict [(''message'', JDict [(''content'', JStr ''mkdir docs'')])]])])]) = Inr ''mkdir docs''"
    using t by simp
  have c2: "extract_text_from_amplify_response sample_dumps sample_str
     (JDict [(''data'', JDict [(''choices'', JList [JDict [(''text'', JStr ''mkdir docs'')]])])]) = Inr ''mkdir docs''"
    using t by simp
  have c3: "extract_text_from_amplify_response sample_dumps sample_str
     (JDict [(''data'', JStr ''move a.py src'')]) = Inr ''move a.py src''"
    using t by simp
  have p4: "\<forall>s. probe_choices sample_dumps (JDict [(''data'', JDict [(''output'', JStr ''mkdir docs''), (''content'', JStr [])])]) \<noteq> Inr (Some s)"
    by (simp add: probe_choices_def exn_bind_def)
  have c4: "extract_text_from_amplify_response sample_dumps sample_str
     (JDict [(''data'', JDict [(''output'', JStr ''mkdir docs''), (''content'', JStr [])])]) = Inr ''mkdir docs''"
    using t p4 by simp
  have p5: "\<forall>s. probe_choices sample_dumps (JDict [(''data'', JDict [(''choices'',
        JList [JDict [(''message'', JDict [(''content'', JStr [])])]])])]) \<noteq> Inr (Some s)"
    by (simp add: probe_choices_def probe_message_def probe_direct_def or_else_def exn_bind_def)
  have q5: "\<forall>s. probe_data (JDict [(''data'', JDict [(''choices'',
        JList [JDict [(''message'', JDict [(''content'', JStr [])])]])])]) \<noteq> Inr (Some s)"
    by (simp add: probe_data_def exn_bind_def)
  have s5: "sample_dumps (JDict [(''data'', JDict [(''choices'',
        JList [JDict [(''message'', JDict [(''content'', JStr [])])]])])]) = Inr ''{}''"
    by (simp add: sample_dumps_def)
  have c5: "extract_text_from_amplify_response sample_dumps sample_str
     (JDict [(''data'', JDict [(''choices'',
        JList [JDict [(''message'', JDict [(''content'', JStr [])])]])])])
     = sample_dumps (JDict [(''data'', JDict [(''choices'',
        JList [JDict [(''message'', JDict [(''content'', JStr [])])]])])])"
    using t p5 q5 s5 by simp
  have s6: "sample_dumps (JList [JNum 1]) = Inr ''{}''"
    by (simp add: sample_dumps_def)
  have c6: "extract_text_from_amplify_response sample_dumps sample_str (JList [JNum 1]) = sample_dumps (JList [JNum 1])"
    using t s6 by simp
  have s7: "sample_dumps (JDict [(''data'', JDict [(''choices'', JList [])])]) = Inr ''{}''"
    by (simp add: sample_dumps_def)
  have c7: "extract_text_from_amplify_response sample_dumps sample_str
     (JDict [(''data'', JDict [(''choices'', JList [])])]) = sample_dumps (JDict [(''data'', JDict [(''choices'', JList [])])])"
    using t s7 by simp
  have c8: "extract_text_from_amplify_response sample_dumps sample_str JNull = Inr []"
    using t by simp
  from c1 c2 c3 c4 c5 c6 c7 c8 show ?thesis by blast
qed

subsection \<open>Directory scanner\<close>


























end
